theory Spec2Isabelle
  imports
    Complex_Main
    "HOL-Library.Multiset"
    "HOL-Library.Char_ord"
    "HOL-Library.List_Lexorder"
begin

section \<open>Data model of the quiz application\<close>

text \<open>
  The embedding follows \<^verbatim>\<open>class QuizApp\<close> and the \<^verbatim>\<open>Utils\<close> object.
  JavaScript numbers that only ever hold counters are integers here, the percentage
  given to \<^verbatim>\<open>calculateScaledScore\<close> is a real number, ISO time stamps are strings
  and the \<^verbatim>\<open>Date\<close> of \<^verbatim>\<open>testStartTime\<close> is a natural number (milliseconds).
  Question objects live in a store and are named by references, because the lists
  \<^verbatim>\<open>allQuestions\<close> and \<^verbatim>\<open>questions\<close> share them and
  \<^verbatim>\<open>Array.prototype.includes\<close> compares them by identity.
  Rendering and \<^verbatim>\<open>localStorage\<close> are outside the model.
\<close>

type_synonym qref = nat

record question =
  qid :: string
  qtext :: string
  category :: string
  options :: "(string \<times> string) list"
  correctAnswers :: "string list"
  isMultipleChoice :: bool

text \<open>A stored answer is one letter (single choice) or an array of letters.\<close>

datatype answer = Letter string | Letters "string list"

datatype error = TypeError

subsection \<open>Plain objects as dictionaries\<close>

text \<open>
  \<^verbatim>\<open>userAnswers\<close>, \<^verbatim>\<open>questionHistory\<close> and the weight table of
  \<^verbatim>\<open>selectTestQuestions\<close> are plain objects read with \<^verbatim>\<open>obj[key]\<close>. Such a read
  returns the object's own property, and otherwise what the object inherits from
  \<^verbatim>\<open>Object.prototype\<close>: one of its twelve built-in members (eleven functions, and
  for \<^verbatim>\<open>__proto__\<close> the prototype object itself), or a property that the program
  has added to it.

  The program adds properties to a built-in object only in
  \<^verbatim>\<open>updateQuestionHistory\<close>, when the history it obtains is such an object. The
  counters and the retention score it writes there are always \<^verbatim>\<open>NaN\<close>
  (\<^verbatim>\<open>undefined + 1\<close> and \<^verbatim>\<open>NaN + 1\<close> are \<^verbatim>\<open>NaN\<close>, as are
  \<^verbatim>\<open>Math.min\<close> and \<^verbatim>\<open>Math.max\<close> of them), \<^verbatim>\<open>mastered\<close> is only ever
  written as \<^verbatim>\<open>false\<close> (\<^verbatim>\<open>NaN >= 3\<close> is false), and \<^verbatim>\<open>lastAttempt\<close> is a
  time stamp. So an \<open>added_props\<close> value records which of these properties a built-in
  object has received. The built-in objects are named by their keys;
  \<^verbatim>\<open>__proto__\<close> names \<^verbatim>\<open>Object.prototype\<close>.
\<close>

definition objectPrototypeKeys :: "string list" where
  "objectPrototypeKeys =
     [''constructor'', ''__defineGetter__'', ''__defineSetter__'', ''hasOwnProperty'',
      ''__lookupGetter__'', ''__lookupSetter__'', ''isPrototypeOf'',
      ''propertyIsEnumerable'', ''toString'', ''valueOf'', ''__proto__'',
      ''toLocaleString'']"

record added_props =
  added_attempts :: bool
  added_lastAttempt :: "string option"
  added_correct :: bool
  added_incorrect :: bool
  added_mastered :: bool
  added_retentionScore :: bool

definition no_added_props :: added_props where
  "no_added_props =
     \<lparr> added_attempts = False, added_lastAttempt = None, added_correct = False,
       added_incorrect = False, added_mastered = False, added_retentionScore = False \<rparr>"

datatype inherited_value =
    Builtin string
  | NaNValue
  | FalseValue
  | Text string
  | Undefined

datatype 'a looked = Own 'a | Inherited inherited_value

text \<open>The value of \<^verbatim>\<open>Object.prototype[k]\<close>, given what the built-in objects have received.\<close>

definition inherited :: "(string \<Rightarrow> added_props) \<Rightarrow> string \<Rightarrow> inherited_value" where
  "inherited B k =
     (if k \<in> set objectPrototypeKeys then Builtin k
      else
        (let P = B ''__proto__'' in
         if k = ''attempts'' then (if added_attempts P then NaNValue else Undefined)
         else if k = ''lastAttempt'' then
           (case added_lastAttempt P of Some t \<Rightarrow> Text t | None \<Rightarrow> Undefined)
         else if k = ''correct'' then (if added_correct P then NaNValue else Undefined)
         else if k = ''incorrect'' then (if added_incorrect P then NaNValue else Undefined)
         else if k = ''mastered'' then (if added_mastered P then FalseValue else Undefined)
         else if k = ''retentionScore'' then
           (if added_retentionScore P then NaNValue else Undefined)
         else Undefined))"

text \<open>\<^verbatim>\<open>obj[k]\<close> for a plain object with the own properties \<open>obj\<close>.\<close>

definition getProperty :: "(string \<Rightarrow> added_props) \<Rightarrow> (string \<rightharpoonup> 'a) \<Rightarrow> string \<Rightarrow> 'a looked" where
  "getProperty B obj k =
     (case obj k of Some v \<Rightarrow> Own v | None \<Rightarrow> Inherited (inherited B k))"

text \<open>Truthiness of an inherited value: objects and non-empty strings.\<close>

fun truthy :: "inherited_value \<Rightarrow> bool" where
  "truthy (Builtin k) = True"
| "truthy NaNValue = False"
| "truthy FalseValue = False"
| "truthy (Text t) = (t \<noteq> [])"
| "truthy Undefined = False"

subsection \<open>Histories and the application state\<close>

text \<open>
  A history record as the program creates it, with all its properties its own. The
  \<^verbatim>\<open>null\<close> of a fresh \<^verbatim>\<open>lastAttempt\<close> is \<open>None\<close>; it is overwritten before
  it is read. An entry of \<^verbatim>\<open>questionHistory\<close> refers to such a record or, after an
  update for the key of a built-in function, to that function.
\<close>

record history =
  attempts :: int
  correct :: int
  incorrect :: int
  lastAttempt :: "string option"
  firstSeen :: string
  mastered :: bool
  retentionScore :: int

datatype history_ref = Rec history | BuiltinRef string

datatype qcount = AllQuestions | Count nat

text \<open>
  The fields of the class, the store of question objects, and \<open>builtinObjects\<close>: what
  the built-in objects of the realm have received.
\<close>

record app =
  qstore :: "qref \<Rightarrow> question"
  builtinObjects :: "string \<Rightarrow> added_props"
  allQuestions :: "qref list"
  questions :: "qref list"
  currentIndex :: nat
  userAnswers :: "string \<rightharpoonup> answer"
  score :: nat
  quizMode :: string
  showAnswer :: bool
  showHints :: bool
  hintLevel :: string
  quizStarted :: bool
  selectedCategories :: "string set"
  questionCount :: qcount
  questionHistory :: "string \<rightharpoonup> history_ref"
  quizResults :: "bool list"
  testStartTime :: "nat option"

text \<open>
  The constructor in a fresh realm, with the loaded history and the question store as
  parameters.
\<close>

definition new_QuizApp :: "(qref \<Rightarrow> question) \<Rightarrow> (string \<rightharpoonup> history_ref) \<Rightarrow> app" where
  "new_QuizApp st loaded =
     \<lparr> qstore = st, builtinObjects = (\<lambda>k. no_added_props),
       allQuestions = [], questions = [], currentIndex = 0,
       userAnswers = Map.empty, score = 0, quizMode = ''practice'',
       showAnswer = False, showHints = False, hintLevel = ''easy'',
       quizStarted = False, selectedCategories = {}, questionCount = Count 10,
       questionHistory = loaded, quizResults = [], testStartTime = None \<rparr>"

section \<open>Mastery tracker\<close>

definition fresh_history :: "string \<Rightarrow> history" where
  "fresh_history now =
     \<lparr> attempts = 0, correct = 0, incorrect = 0, lastAttempt = None,
       firstSeen = now, mastered = False, retentionScore = 100 \<rparr>"

text \<open>The statements of \<^verbatim>\<open>updateQuestionHistory\<close> on a history record.\<close>

definition updateRecord :: "string \<Rightarrow> bool \<Rightarrow> history \<Rightarrow> history" where
  "updateRecord now isCorrect h0 =
     (let h1 = h0\<lparr>attempts := attempts h0 + 1, lastAttempt := Some now\<rparr>
      in if isCorrect then
           (let h = h1\<lparr>correct := correct h1 + 1\<rparr>;
                h' = (if correct h \<ge> 3 \<and> incorrect h = 0
                      then h\<lparr>mastered := True\<rparr> else h)
            in h'\<lparr>retentionScore := min 100 (retentionScore h' + 10)\<rparr>)
         else
           h1\<lparr>incorrect := incorrect h1 + 1, mastered := False,
              retentionScore := max 0 (retentionScore h1 - 20)\<rparr>)"

text \<open>
  The same statements on a built-in object: every number written is \<^verbatim>\<open>NaN\<close>, and
  \<^verbatim>\<open>mastered\<close> is written only in the incorrect branch.
\<close>

definition updateBuiltin :: "string \<Rightarrow> bool \<Rightarrow> added_props \<Rightarrow> added_props" where
  "updateBuiltin now isCorrect b0 =
     (let b1 = b0\<lparr>added_attempts := True, added_lastAttempt := Some now\<rparr>
      in if isCorrect then
           b1\<lparr>added_correct := True, added_retentionScore := True\<rparr>
         else
           b1\<lparr>added_incorrect := True, added_mastered := True,
              added_retentionScore := True\<rparr>)"

text \<open>
  \<^verbatim>\<open>updateQuestionHistory\<close>. The history is what \<^verbatim>\<open>questionHistory[questionId]\<close>
  yields if that is truthy, and a fresh record otherwise. A truthy inherited string is
  a primitive: the class body is strict code, so the first assignment to a property of
  it throws, before anything is changed. The final assignment
  \<^verbatim>\<open>questionHistory[questionId] = history\<close> creates or overwrites an own property,
  except for the key \<^verbatim>\<open>__proto__\<close> when it is not an own property: then the
  inherited setter runs, and sets the prototype of \<^verbatim>\<open>questionHistory\<close> to the
  object it already is.
\<close>

definition updateQuestionHistory :: "string \<Rightarrow> string \<Rightarrow> bool \<Rightarrow> app \<Rightarrow> error + app" where
  "updateQuestionHistory now questionId isCorrect s =
     (let fresh = s\<lparr>questionHistory :=
                      (questionHistory s)
                        (questionId \<mapsto> Rec (updateRecord now isCorrect (fresh_history now)))\<rparr>
      in case getProperty (builtinObjects s) (questionHistory s) questionId of
           Own (Rec h) \<Rightarrow>
             Inr (s\<lparr>questionHistory :=
                      (questionHistory s)(questionId \<mapsto> Rec (updateRecord now isCorrect h))\<rparr>)
         | Own (BuiltinRef k) \<Rightarrow>
             Inr (s\<lparr>builtinObjects :=
                      (builtinObjects s)(k := updateBuiltin now isCorrect (builtinObjects s k))\<rparr>)
         | Inherited (Builtin k) \<Rightarrow>
             Inr (s\<lparr>builtinObjects :=
                      (builtinObjects s)(k := updateBuiltin now isCorrect (builtinObjects s k)),
                    questionHistory :=
                      (if k = ''__proto__'' then questionHistory s
                       else (questionHistory s)(questionId \<mapsto> BuiltinRef k))\<rparr>)
         | Inherited (Text t) \<Rightarrow> if t \<noteq> [] then Inl TypeError else Inr fresh
         | Inherited NaNValue \<Rightarrow> Inr fresh
         | Inherited FalseValue \<Rightarrow> Inr fresh
         | Inherited Undefined \<Rightarrow> Inr fresh)"

record mastery =
  status :: string
  label :: string
  color :: string

text \<open>
  Numbers as the comparisons of \<^verbatim>\<open>getQuestionMasteryStatus\<close> see them: a comparison
  with \<^verbatim>\<open>NaN\<close> (also the number of \<^verbatim>\<open>undefined\<close>) is false.
\<close>

datatype jsnum = NaN | Num int

fun jsGreaterEq :: "jsnum \<Rightarrow> jsnum \<Rightarrow> bool" where
  "jsGreaterEq (Num a) (Num b) = (a \<ge> b)"
| "jsGreaterEq _ _ = False"

fun jsGreater :: "jsnum \<Rightarrow> jsnum \<Rightarrow> bool" where
  "jsGreater (Num a) (Num b) = (a > b)"
| "jsGreater _ _ = False"

fun jsLess :: "jsnum \<Rightarrow> jsnum \<Rightarrow> bool" where
  "jsLess (Num a) (Num b) = (a < b)"
| "jsLess _ _ = False"

text \<open>
  The classification of a truthy history, from the truthiness of its
  \<^verbatim>\<open>mastered\<close> and the numbers of its \<^verbatim>\<open>correct\<close>, \<^verbatim>\<open>incorrect\<close> and
  \<^verbatim>\<open>retentionScore\<close>.
\<close>

definition classify :: "bool \<Rightarrow> jsnum \<Rightarrow> jsnum \<Rightarrow> jsnum \<Rightarrow> mastery" where
  "classify isMastered nCorrect nIncorrect retention =
     (if isMastered \<and> jsGreaterEq retention (Num 70)
      then \<lparr>status = ''mastered'', label = ''Mastered'', color = ''#34a853''\<rparr>
      else if jsGreater nIncorrect nCorrect \<or> jsLess retention (Num 50)
      then \<lparr>status = ''weak'', label = ''Needs Practice'', color = ''#ea4335''\<rparr>
      else \<lparr>status = ''learning'', label = ''Learning'', color = ''#fbbc04''\<rparr>)"

text \<open>
  \<^verbatim>\<open>getQuestionMasteryStatus\<close>. On a built-in object, and on a string (whose
  properties are those inherited from \<^verbatim>\<open>Object.prototype\<close>), \<^verbatim>\<open>mastered\<close> is
  \<^verbatim>\<open>undefined\<close> or \<^verbatim>\<open>false\<close> and each number is \<^verbatim>\<open>undefined\<close> or
  \<^verbatim>\<open>NaN\<close>.
\<close>

definition getQuestionMasteryStatus :: "app \<Rightarrow> string \<Rightarrow> mastery" where
  "getQuestionMasteryStatus s questionId =
     (let unseen = \<lparr>status = ''unseen'', label = ''New'', color = ''#5f6368''\<rparr>
      in case getProperty (builtinObjects s) (questionHistory s) questionId of
           Own (Rec h) \<Rightarrow>
             classify (mastered h) (Num (correct h)) (Num (incorrect h))
               (Num (retentionScore h))
         | Own (BuiltinRef k) \<Rightarrow> classify False NaN NaN NaN
         | Inherited (Builtin k) \<Rightarrow> classify False NaN NaN NaN
         | Inherited (Text t) \<Rightarrow> if t \<noteq> [] then classify False NaN NaN NaN else unseen
         | Inherited NaNValue \<Rightarrow> unseen
         | Inherited FalseValue \<Rightarrow> unseen
         | Inherited Undefined \<Rightarrow> unseen)"

text \<open>
  A finite sequence of \<^verbatim>\<open>updateQuestionHistory\<close> calls, each with its time stamp,
  question id and outcome, applied from left to right. A call that throws has changed
  nothing, and the next call finds the state as it was.
\<close>

fun recordAttempts :: "app \<Rightarrow> (string \<times> string \<times> bool) list \<Rightarrow> app" where
  "recordAttempts s [] = s"
| "recordAttempts s ((now, questionId, isCorrect) # cs) =
     (case updateQuestionHistory now questionId isCorrect s of
        Inl e \<Rightarrow> recordAttempts s cs
      | Inr s' \<Rightarrow> recordAttempts s' cs)"

section \<open>Utilities\<close>

text \<open>
  \<^verbatim>\<open>Math.random\<close> is an external source of entropy: a sequence \<open>rnd\<close> of draws and
  the number \<open>k\<close> of draws consumed so far. The expression
  \<^verbatim>\<open>Math.floor(Math.random() * n)\<close> is an index below \<open>n\<close>, here the next draw
  reduced modulo \<open>n\<close>.
\<close>

definition randomBelow :: "(nat \<Rightarrow> nat) \<Rightarrow> nat \<Rightarrow> nat \<Rightarrow> nat" where
  "randomBelow rnd k n = rnd k mod n"

text \<open>
  The loop of \<^verbatim>\<open>shuffle\<close>, for \<open>i\<close> from its start value down to 1, on the
  contents of the local array \<^verbatim>\<open>arr\<close>. The destructuring assignment reads both
  elements before it writes.
\<close>

fun shuffle_loop :: "(nat \<Rightarrow> nat) \<Rightarrow> nat \<Rightarrow> nat \<Rightarrow> 'a list \<Rightarrow> 'a list \<times> nat" where
  "shuffle_loop rnd k 0 arr = (arr, k)"
| "shuffle_loop rnd k (Suc n) arr =
     (let i = Suc n;
          j = randomBelow rnd k (i + 1)
      in shuffle_loop rnd (k + 1) n (arr[i := arr ! j, j := arr ! i]))"

text \<open>
  \<^verbatim>\<open>shuffle\<close> on array values: the result and the number of draws consumed.
  For the empty array \<^verbatim>\<open>arr.length - 1\<close> is \<open>-1\<close> and the loop does not run,
  as with the truncated subtraction here.
\<close>

definition shuffle :: "(nat \<Rightarrow> nat) \<Rightarrow> nat \<Rightarrow> 'a list \<Rightarrow> 'a list \<times> nat" where
  "shuffle rnd k array = (let arr = array in shuffle_loop rnd k (length arr - 1) arr)"

text \<open>
  The same function on array objects: a heap of arrays, addresses below
  \<open>allocated\<close> in use. The spread \<^verbatim>\<open>[...array]\<close> allocates a new array, and every
  swap writes to that array.
\<close>

record 'a array_heap =
  contents :: "nat \<Rightarrow> 'a list"
  allocated :: nat

definition new_array :: "'a list \<Rightarrow> 'a array_heap \<Rightarrow> nat \<times> 'a array_heap" where
  "new_array xs h =
     (allocated h, h\<lparr>contents := (contents h)(allocated h := xs), allocated := Suc (allocated h)\<rparr>)"

fun shuffle_loop_ref ::
  "(nat \<Rightarrow> nat) \<Rightarrow> nat \<Rightarrow> nat \<Rightarrow> nat \<Rightarrow> 'a array_heap \<Rightarrow> 'a array_heap \<times> nat" where
  "shuffle_loop_ref rnd k 0 arr h = (h, k)"
| "shuffle_loop_ref rnd k (Suc n) arr h =
     (let i = Suc n;
          j = randomBelow rnd k (i + 1);
          a = contents h arr
      in shuffle_loop_ref rnd (k + 1) n arr
           (h\<lparr>contents := (contents h)(arr := a[i := a ! j, j := a ! i])\<rparr>))"

definition shuffle_ref ::
  "(nat \<Rightarrow> nat) \<Rightarrow> nat \<Rightarrow> nat \<Rightarrow> 'a array_heap \<Rightarrow> nat \<times> 'a array_heap \<times> nat" where
  "shuffle_ref rnd k array h =
     (let (arr, h1) = new_array (contents h array) h;
          (h2, k') = shuffle_loop_ref rnd k (length (contents h1 arr) - 1) arr h1
      in (arr, h2, k'))"

function arraysEqual_loop :: "nat \<Rightarrow> 'a list \<Rightarrow> 'a list \<Rightarrow> bool" where
  "arraysEqual_loop i arr1 arr2 =
     (if i < length arr1
      then (if arr1 ! i \<noteq> arr2 ! i then False else arraysEqual_loop (i + 1) arr1 arr2)
      else True)"
  by pat_completeness auto
termination
  by (relation "measure (\<lambda>(i, arr1, arr2). length arr1 - i)") auto

declare arraysEqual_loop.simps [simp del]

definition arraysEqual :: "'a list \<Rightarrow> 'a list \<Rightarrow> bool" where
  "arraysEqual arr1 arr2 =
     (if length arr1 \<noteq> length arr2 then False else arraysEqual_loop 0 arr1 arr2)"

text \<open>
  \<^verbatim>\<open>Math.round\<close> rounds to the nearest integer, halves upwards. The double
  arithmetic of \<^verbatim>\<open>calculateScaledScore\<close> is taken as real arithmetic; on the
  whole percentages that \<^verbatim>\<open>showResults\<close> passes, no value to be rounded is
  nearer than \<open>1/130\<close> to a half.
\<close>

definition Math_round :: "real \<Rightarrow> int" where
  "Math_round x = \<lfloor>x + 1 / 2\<rfloor>"

definition calculateScaledScore :: "real \<Rightarrow> int" where
  "calculateScaledScore rawPercentage =
     (if rawPercentage = 0 then 0
      else if rawPercentage = 100 then 1000
      else
        (let passingThreshold = 65 / 100 in
         if rawPercentage / 100 < passingThreshold
         then Math_round ((rawPercentage / 100 / passingThreshold) * 699)
         else
           (let abovePassingRatio =
                  (rawPercentage / 100 - passingThreshold) / (1 - passingThreshold)
            in Math_round (700 + abovePassingRatio * 300))))"

section \<open>Question selection\<close>

text \<open>The weight table of \<^verbatim>\<open>selectTestQuestions\<close>, in the order of its keys.\<close>

definition categoryDistribution :: "(string \<times> real \<times> real) list" where
  "categoryDistribution =
     [(''Perform solution envisioning and requirement analysis'', 45 / 100, 50 / 100),
      (''Architect a solution'', 35 / 100, 40 / 100),
      (''Implement the solution'', 15 / 100, 20 / 100)]"

text \<open>
  The pass over the entries of the table, after the grouping loop has returned. The
  questions grouped under a category are the available questions of that category,
  in their order.
\<close>

fun selectPerCategory ::
  "(qref \<Rightarrow> question) \<Rightarrow> (nat \<Rightarrow> nat) \<Rightarrow> nat \<Rightarrow> qref list \<Rightarrow> nat \<Rightarrow>
     (string \<times> real \<times> real) list \<Rightarrow> qref list \<Rightarrow> qref list \<times> nat" where
  "selectPerCategory st rnd k availableQuestions targetTotal [] selectedQuestions =
     (selectedQuestions, k)"
| "selectPerCategory st rnd k availableQuestions targetTotal ((c, mn, mx) # rest)
       selectedQuestions =
     (let avgPercentage = (mn + mx) / 2;
          targetCount = nat (Math_round (real targetTotal * avgPercentage));
          (shuffled, k') =
             shuffle rnd k (filter (\<lambda>q. category (st q) = c) availableQuestions);
          selected = take (min targetCount (length shuffled)) shuffled
      in selectPerCategory st rnd k' availableQuestions targetTotal rest
           (selectedQuestions @ selected))"

text \<open>
  The grouping loop of \<^verbatim>\<open>selectTestQuestions\<close> tests
  \<^verbatim>\<open>categoryDistribution[category]\<close>. For one of the three keys of the table that
  is its entry. For any other category it is what the table inherits: a built-in
  member of \<^verbatim>\<open>Object.prototype\<close> or a non-empty string added to it is truthy, has
  no \<^verbatim>\<open>questions\<close> property, and the call of \<^verbatim>\<open>push\<close> on
  \<^verbatim>\<open>undefined\<close> throws.
\<close>

definition groupingThrows :: "(string \<Rightarrow> added_props) \<Rightarrow> string \<Rightarrow> bool" where
  "groupingThrows B c = (c \<notin> set (map fst categoryDistribution) \<and> truthy (inherited B c))"

definition selectTestQuestions ::
  "(string \<Rightarrow> added_props) \<Rightarrow> (qref \<Rightarrow> question) \<Rightarrow> (nat \<Rightarrow> nat) \<Rightarrow> nat \<Rightarrow> qref list \<Rightarrow> nat
     \<Rightarrow> error + (qref list \<times> nat)" where
  "selectTestQuestions B st rnd k availableQuestions targetTotal =
     (if list_ex (\<lambda>q. groupingThrows B (category (st q))) availableQuestions
      then Inl TypeError
      else
        (let (selectedQuestions, k1) =
                selectPerCategory st rnd k availableQuestions targetTotal
                  categoryDistribution [];
             (selectedQuestions', k2) =
                (if length selectedQuestions < targetTotal then
                   (let remaining = targetTotal - length selectedQuestions;
                        unused = filter (\<lambda>q. q \<notin> set selectedQuestions) availableQuestions;
                        (shuffled, k') = shuffle rnd k1 unused;
                        additional = take remaining shuffled
                    in (selectedQuestions @ additional, k'))
                 else (selectedQuestions, k1));
             (final, k3) = shuffle rnd k2 selectedQuestions'
         in Inr (take targetTotal final, k3)))"

section \<open>Quiz session\<close>

text \<open>The first step of \<^verbatim>\<open>startQuiz\<close>: the pool after the category filter.\<close>

definition filterByCategory :: "app \<Rightarrow> qref list" where
  "filterByCategory s =
     (if selectedCategories s \<noteq> {}
      then filter (\<lambda>q. category (qstore s q) \<in> selectedCategories s) (allQuestions s)
      else allQuestions s)"

text \<open>
  \<^verbatim>\<open>startQuiz\<close> returns the text of the alert it raised, if any, the state and the
  number of draws consumed, or the error that \<^verbatim>\<open>selectTestQuestions\<close> threw.
\<close>

definition startQuiz ::
  "(nat \<Rightarrow> nat) \<Rightarrow> nat \<Rightarrow> nat \<Rightarrow> app \<Rightarrow> error + (string option \<times> app \<times> nat)" where
  "startQuiz rnd k now s =
     (let filteredQuestions = filterByCategory s
      in if length filteredQuestions = 0
         then Inr (Some ''No questions available with selected filters'', s, k)
         else
           (let selection =
                  (if quizMode s = ''test'' then
                     (let questionCount = randomBelow rnd k 21 + 40
                      in selectTestQuestions (builtinObjects s) (qstore s) rnd (k + 1)
                           filteredQuestions questionCount)
                   else
                     (let (shuffled, k1) = shuffle rnd k filteredQuestions
                      in Inr (case questionCount s of
                                AllQuestions \<Rightarrow> shuffled
                              | Count n \<Rightarrow> take n shuffled, k1)))
            in case selection of
                 Inl e \<Rightarrow> Inl e
               | Inr (filteredQuestions', k') \<Rightarrow>
                   Inr (None,
                        s\<lparr>questions := filteredQuestions', quizStarted := True,
                          currentIndex := 0, score := 0, userAnswers := Map.empty,
                          quizResults := [], showAnswer := False, showHints := False,
                          testStartTime := Some now\<rparr>,
                        k')))"

text \<open>
  \<^verbatim>\<open>checkAnswer\<close>. Reading a property of \<^verbatim>\<open>undefined\<close> (no question at the
  current index) is a type error. The answer is \<^verbatim>\<open>userAnswers[question.id]\<close>,
  own or inherited.

  Multiple choice: a falsy answer gives way to \<^verbatim>\<open>[]\<close>; a truthy answer that is not
  an array (a non-empty string, a built-in object) has no \<^verbatim>\<open>sort\<close>, and calling it
  is a type error. \<^verbatim>\<open>Array.prototype.sort\<close> sorts the array it is called on, by
  code units, and returns that array: the stored answer array and the
  \<^verbatim>\<open>correctAnswers\<close> array of the question object are both written
  (\<open>sortedCorrect\<close> and \<open>sortedQuestion\<close> are used in this branch only).

  Single choice: the answer is compared with \<^verbatim>\<open>correctAnswers[0]\<close>, a string, or
  \<^verbatim>\<open>undefined\<close> for the empty array. Only a string is strictly equal to a string,
  and only \<^verbatim>\<open>undefined\<close> to \<^verbatim>\<open>undefined\<close>.

  Then \<^verbatim>\<open>updateQuestionHistory\<close> runs; if it throws, so does \<^verbatim>\<open>checkAnswer\<close>,
  before the result is pushed and the score is counted.
\<close>

definition checkAnswer :: "string \<Rightarrow> app \<Rightarrow> error + app" where
  "checkAnswer now s =
     (if currentIndex s \<ge> length (questions s) then Inl TypeError
      else
        (let r = questions s ! currentIndex s;
             question = qstore s r;
             userAnswer = getProperty (builtinObjects s) (userAnswers s) (qid question);
             sortedCorrect = sort (correctAnswers question);
             sortedQuestion = (qstore s)(r := question\<lparr>correctAnswers := sortedCorrect\<rparr>);
             compared =
               (if isMultipleChoice question then
                  (case userAnswer of
                     Own (Letters ls) \<Rightarrow>
                       Inr (arraysEqual (sort ls) sortedCorrect,
                            s\<lparr>userAnswers := (userAnswers s)(qid question \<mapsto> Letters (sort ls)),
                              qstore := sortedQuestion\<rparr>)
                   | Own (Letter l) \<Rightarrow>
                       if l \<noteq> [] then Inl TypeError
                       else Inr (arraysEqual [] sortedCorrect, s\<lparr>qstore := sortedQuestion\<rparr>)
                   | Inherited v \<Rightarrow>
                       if truthy v then Inl TypeError
                       else Inr (arraysEqual [] sortedCorrect, s\<lparr>qstore := sortedQuestion\<rparr>))
                else
                  Inr (case userAnswer of
                         Own (Letter l) \<Rightarrow>
                           correctAnswers question \<noteq> [] \<and> l = hd (correctAnswers question)
                       | Own (Letters ls) \<Rightarrow> False
                       | Inherited (Text t) \<Rightarrow>
                           correctAnswers question \<noteq> [] \<and> t = hd (correctAnswers question)
                       | Inherited Undefined \<Rightarrow> correctAnswers question = []
                       | Inherited (Builtin k) \<Rightarrow> False
                       | Inherited NaNValue \<Rightarrow> False
                       | Inherited FalseValue \<Rightarrow> False,
                       s))
         in case compared of
              Inl e \<Rightarrow> Inl e
            | Inr (isCorrect, s1) \<Rightarrow>
                (case updateQuestionHistory now (qid question) isCorrect s1 of
                   Inl e \<Rightarrow> Inl e
                 | Inr s2 \<Rightarrow>
                     (let s3 = s2\<lparr>quizResults := quizResults s2 @ [isCorrect]\<rparr>;
                          s4 = (if isCorrect then s3\<lparr>score := score s3 + 1\<rparr> else s3)
                      in Inr (s4\<lparr>showAnswer := True\<rparr>)))))"

section \<open>Invariants and example data\<close>


text \<open>
  The mastered flag of a history record is set only with three correct and no
  incorrect answers, and the incorrect counter is never negative.
\<close>

definition mastered_sound :: "app \<Rightarrow> string \<Rightarrow> bool" where
  "mastered_sound s q =
     (case questionHistory s q of
        None \<Rightarrow> True
      | Some (Rec h) \<Rightarrow>
          0 \<le> incorrect h \<and> (mastered h \<longrightarrow> 3 \<le> correct h \<and> incorrect h = 0)
      | Some (BuiltinRef k) \<Rightarrow> True)"



text \<open>
  A small bank: a multiple-choice question with the correct answers A and C, and a
  single-choice question; a running session over both in which C and then A were
  selected for the first question.
\<close>

definition example_multi :: question where
  "example_multi =
     \<lparr> qid = ''q1'', qtext = ''Which two apply?'', category = ''Architect a solution'',
       options = [(''A'', ''first''), (''B'', ''second''), (''C'', ''third'')],
       correctAnswers = [''A'', ''C''], isMultipleChoice = True \<rparr>"

definition example_single :: question where
  "example_single =
     \<lparr> qid = ''q2'', qtext = ''Which one applies?'', category = ''Implement the solution'',
       options = [(''A'', ''first''), (''B'', ''second'')],
       correctAnswers = [''A''], isMultipleChoice = False \<rparr>"

definition example_store :: "qref \<Rightarrow> question" where
  "example_store r = (if r = 0 then example_multi else example_single)"

definition example_app :: app where
  "example_app =
     (new_QuizApp example_store Map.empty)
       \<lparr> allQuestions := [0, 1], questions := [0, 1], quizStarted := True,
         userAnswers := [''q1'' \<mapsto> Letters [''C'', ''A'']] \<rparr>"

definition example_heap :: "nat array_heap" where
  "example_heap = \<lparr> contents = (\<lambda>a. if a = 0 then [10, 20, 30] else []), allocated = 1 \<rparr>"

text \<open>
  A one-question session whose multiple-choice question lists its correct answers as
  C, A, with an exact answer stored.
\<close>

definition unsorted_multi :: question where
  "unsorted_multi =
     \<lparr> qid = ''q7'', qtext = ''Which two apply?'', category = ''Architect a solution'',
       options = [(''A'', ''first''), (''B'', ''second''), (''C'', ''third'')],
       correctAnswers = [''C'', ''A''], isMultipleChoice = True \<rparr>"

definition unsorted_app :: app where
  "unsorted_app =
     (new_QuizApp (\<lambda>r. unsorted_multi) Map.empty)
       \<lparr> allQuestions := [0], questions := [0], quizStarted := True,
         userAnswers := [''q7'' \<mapsto> Letters [''C'', ''A'']] \<rparr>"

text \<open>The number of questions of a category in a list of question references.\<close>

definition categoryCount :: "(qref \<Rightarrow> question) \<Rightarrow> string \<Rightarrow> qref list \<Rightarrow> nat" where
  "categoryCount st c qs = length (filter (\<lambda>q. category (st q) = c) qs)"

text \<open>
  A bank of 60 question objects: references below 30 are of the first official
  category, those below 50 of the second, the others of the third. The entropy source
  of the examples draws 0, 1, 2, ...
\<close>

definition exam_store :: "qref \<Rightarrow> question" where
  "exam_store r =
     \<lparr> qid = replicate (Suc r) CHR ''q'', qtext = ''Which one applies?'',
       category =
         (if r < 30 then ''Perform solution envisioning and requirement analysis''
          else if r < 50 then ''Architect a solution''
          else ''Implement the solution''),
       options = [(''A'', ''first''), (''B'', ''second'')],
       correctAnswers = [''A''], isMultipleChoice = False \<rparr>"

definition exam_bank :: "qref list" where
  "exam_bank = [0..<60]"

definition example_rnd :: "nat \<Rightarrow> nat" where
  "example_rnd n = n"





section \<open>Scaled score\<close>

lemma calculateScaledScore_below: "0 \<le> r \<Longrightarrow> r < 65 \<Longrightarrow> calculateScaledScore r < 700"
  unfolding calculateScaledScore_def Math_round_def Let_def
  by (auto simp: floor_less_iff)

lemma calculateScaledScore_above: "65 \<le> r \<Longrightarrow> r \<le> 100 \<Longrightarrow> 700 \<le> calculateScaledScore r"
  unfolding calculateScaledScore_def Math_round_def Let_def
  by (auto simp: le_floor_iff field_simps)

lemma calculateScaledScore_le_1000: "0 \<le> r \<Longrightarrow> r \<le> 100 \<Longrightarrow> calculateScaledScore r \<le> 1000"
  unfolding calculateScaledScore_def Math_round_def Let_def
  by (auto simp: floor_le_iff field_simps)

lemma calculateScaledScore_nonneg: "0 \<le> r \<Longrightarrow> r \<le> 100 \<Longrightarrow> 0 \<le> calculateScaledScore r"
  unfolding calculateScaledScore_def Math_round_def Let_def
  by (auto simp: le_floor_iff)

lemma calculateScaledScore_mono:
  assumes "0 \<le> r" "r \<le> s" "s \<le> 100"
  shows "calculateScaledScore r \<le> calculateScaledScore s"
proof -
  consider "r = 0" | "s = 100" | "0 < r" "s < 65"
    | "0 < r" "r < 65" "65 \<le> s" "s < 100" | "65 \<le> r" "s < 100"
    using assms by linarith
  then show ?thesis
  proof cases
    case 1
    then show ?thesis
      using calculateScaledScore_nonneg[of s] assms by (simp add: calculateScaledScore_def)
  next
    case 2
    then show ?thesis
      using calculateScaledScore_le_1000[of r] assms by (simp add: calculateScaledScore_def)
  next
    case 3
    then show ?thesis
      using assms unfolding calculateScaledScore_def Math_round_def Let_def
      by (auto intro!: floor_mono)
  next
    case 4
    then show ?thesis
      using calculateScaledScore_below[of r] calculateScaledScore_above[of s] assms by linarith
  next
    case 5
    then show ?thesis
      using assms unfolding calculateScaledScore_def Math_round_def Let_def
      by (auto intro!: floor_mono simp: divide_right_mono)
  qed
qed

text \<open>
  C1. With the percentage taken as a real number, \<open>calculateScaledScore\<close> maps 0 to 0
  and 100 to 1000, is monotonically non-decreasing on \<open>[0, 100]\<close>, is below 700 for
  every percentage below 65, at least 700 from 65 on, and exactly 700 at 65.
\<close>

theorem calculateScaledScore_spec:
  "calculateScaledScore 0 = 0 \<and> calculateScaledScore 100 = 1000 \<and>
   (\<forall>r s. 0 \<le> r \<and> r \<le> s \<and> s \<le> 100 \<longrightarrow> calculateScaledScore r \<le> calculateScaledScore s) \<and>
   (\<forall>r. 0 \<le> r \<and> r < 65 \<longrightarrow> calculateScaledScore r < 700) \<and>
   (\<forall>r. 65 \<le> r \<and> r \<le> 100 \<longrightarrow> 700 \<le> calculateScaledScore r) \<and>
   calculateScaledScore 65 = 700"
proof -
  have "calculateScaledScore 0 = 0" "calculateScaledScore 100 = 1000"
    "calculateScaledScore 65 = 700"
    by (simp_all add: calculateScaledScore_def Math_round_def)
  then show ?thesis
    using calculateScaledScore_mono calculateScaledScore_below calculateScaledScore_above
    by blast
qed

theorem calculateScaledScore_spec_witness:
  "(0::real) \<le> 64 \<and> (64::real) \<le> 66 \<and> (66::real) \<le> 100 \<and> (64::real) < 65 \<and> (65::real) \<le> 66 \<and>
   calculateScaledScore 64 = 688 \<and> calculateScaledScore 66 = 709 \<and>
   calculateScaledScore 64 \<le> calculateScaledScore 66 \<and>
   calculateScaledScore 64 < 700 \<and> 700 \<le> calculateScaledScore 66"
proof -
  have v: "calculateScaledScore 64 = 688" "calculateScaledScore 66 = 709"
    by (simp_all add: calculateScaledScore_def Math_round_def)
  have m: "calculateScaledScore 64 \<le> calculateScaledScore 66"
    using calculateScaledScore_spec by simp
  have b: "calculateScaledScore 64 < 700"
    using calculateScaledScore_spec by simp
  have a: "700 \<le> calculateScaledScore 66"
    using calculateScaledScore_spec by simp
  show ?thesis using v m b a by simp
qed

section \<open>Mastery tracker\<close>

lemma updateQuestionHistory_other:
  "updateQuestionHistory now q' c s = Inr s' \<Longrightarrow> q' \<noteq> q \<Longrightarrow>
   questionHistory s' q = questionHistory s q"
  by (auto simp: updateQuestionHistory_def getProperty_def Let_def
      split: option.splits history_ref.splits inherited_value.splits if_splits)





lemma mastered_sound_same:
  assumes "mastered_sound s q" and "updateQuestionHistory now q c s = Inr s'"
  shows "mastered_sound s' q"
proof (cases "questionHistory s q")
  case None
  then show ?thesis
    using assms(2)
    by (auto simp: updateQuestionHistory_def getProperty_def mastered_sound_def
        updateRecord_def fresh_history_def Let_def
        split: inherited_value.splits if_splits)
next
  case (Some e)
  then show ?thesis
    using assms
    by (cases e)
      (auto simp: updateQuestionHistory_def getProperty_def mastered_sound_def
        updateRecord_def Let_def split: if_splits)
qed

lemma mastered_sound_step:
  assumes "mastered_sound s q" and "updateQuestionHistory now q' c s = Inr s'"
  shows "mastered_sound s' q"
proof (cases "q' = q")
  case True
  then show ?thesis using mastered_sound_same assms by blast
next
  case False
  then show ?thesis
    using updateQuestionHistory_other[OF assms(2) False] assms(1)
    by (simp add: mastered_sound_def)
qed

lemma mastered_sound_run:
  "mastered_sound s q \<Longrightarrow> mastered_sound (recordAttempts s cs) q"
proof (induction s cs rule: recordAttempts.induct)
  case (1 s)
  then show ?case by simp
next
  case (2 s now questionId isCorrect cs)
  show ?case
  proof (cases "updateQuestionHistory now questionId isCorrect s")
    case (Inl e)
    then show ?thesis using 2 by simp
  next
    case (Inr s')
    then show ?thesis
      using 2 mastered_sound_step[OF "2.prems"(1) Inr] by simp
  qed
qed

lemma classify_NaN: "status (classify False NaN NaN NaN) = ''learning''"
  by (simp add: classify_def)

lemma status_mastered_record:
  assumes "status (getQuestionMasteryStatus s q) = ''mastered''"
  shows "\<exists>h. questionHistory s q = Some (Rec h) \<and> mastered h \<and> 70 \<le> retentionScore h"
proof (cases "questionHistory s q")
  case None
  then show ?thesis
    using assms
    by (auto simp: getQuestionMasteryStatus_def getProperty_def classify_def Let_def
        split: inherited_value.splits if_splits)
next
  case (Some e)
  then show ?thesis
    using assms
    by (cases e)
      (auto simp: getQuestionMasteryStatus_def getProperty_def classify_def Let_def
        split: if_splits)
qed







text \<open>
  C6. From no history for a question id, after every finite sequence of
  \<open>updateQuestionHistory\<close> calls: when \<open>getQuestionMasteryStatus\<close> reports mastered,
  the history is a record with at least three correct answers, no incorrect answer and
  a retention score of at least 70.
\<close>

theorem mastered_status_sound:
  assumes "questionHistory s q = None"
      and "status (getQuestionMasteryStatus (recordAttempts s cs) q) = ''mastered''"
  shows "\<exists>h. questionHistory (recordAttempts s cs) q = Some (Rec h) \<and>
           3 \<le> correct h \<and> incorrect h = 0 \<and> 70 \<le> retentionScore h"
proof -
  have "mastered_sound s q"
    using assms(1) by (simp add: mastered_sound_def)
  then have m: "mastered_sound (recordAttempts s cs) q"
    by (rule mastered_sound_run)
  obtain h where h: "questionHistory (recordAttempts s cs) q = Some (Rec h)"
    "mastered h" "70 \<le> retentionScore h"
    using status_mastered_record[OF assms(2)] by blast
  then show ?thesis
    using m by (simp add: mastered_sound_def)
qed

theorem mastered_status_sound_witness:
  "questionHistory example_app ''q2'' = None \<and>
   status (getQuestionMasteryStatus
     (recordAttempts example_app
        [(''t1'', ''q2'', True), (''t2'', ''toString'', False), (''t3'', ''q2'', True),
         (''t4'', ''q2'', True)]) ''q2'')
     = ''mastered'' \<and>
   (\<exists>h. questionHistory
      (recordAttempts example_app
        [(''t1'', ''q2'', True), (''t2'', ''toString'', False), (''t3'', ''q2'', True),
         (''t4'', ''q2'', True)]) ''q2''
      = Some (Rec h) \<and> 3 \<le> correct h \<and> incorrect h = 0 \<and> 70 \<le> retentionScore h)"
proof -
  have n: "questionHistory example_app ''q2'' = None"
    by (simp add: example_app_def new_QuizApp_def)
  have m: "status (getQuestionMasteryStatus
     (recordAttempts example_app
        [(''t1'', ''q2'', True), (''t2'', ''toString'', False), (''t3'', ''q2'', True),
         (''t4'', ''q2'', True)]) ''q2'')
     = ''mastered''"
    by code_simp
  show ?thesis using mastered_status_sound[OF n m] n m by simp
qed

section \<open>Shuffle\<close>

lemma randomBelow_less: "0 < n \<Longrightarrow> randomBelow rnd k n < n"
  by (simp add: randomBelow_def)

lemma mset_shuffle_loop:
  "n < length arr \<Longrightarrow> mset (fst (shuffle_loop rnd k n arr)) = mset arr"
proof (induction n arbitrary: k arr)
  case 0
  then show ?case by simp
next
  case (Suc n)
  let ?j = "randomBelow rnd k (Suc n + 1)"
  let ?arr = "arr[Suc n := arr ! ?j, ?j := arr ! Suc n]"
  have j: "?j < length arr"
    using randomBelow_less[of "Suc n + 1" rnd k] Suc.prems by simp
  have "mset ?arr = mset arr"
    using mset_swap[OF j, of "Suc n"] Suc.prems by simp
  moreover have "n < length ?arr"
    using Suc.prems by simp
  ultimately show ?case
    using Suc.IH[of ?arr "k + 1"] by (simp add: Let_def)
qed

lemma mset_shuffle: "mset (fst (shuffle rnd k xs)) = mset xs"
proof (cases xs)
  case Nil
  then show ?thesis by (simp add: shuffle_def)
next
  case (Cons x ys)
  then show ?thesis
    using mset_shuffle_loop[of "length xs - 1" xs rnd k] by (simp add: shuffle_def)
qed

lemma length_shuffle: "length (fst (shuffle rnd k xs)) = length xs"
  using mset_shuffle[of rnd k xs] by (metis size_mset)

lemma shuffle_loop_ref_frame:
  "a \<noteq> arr \<Longrightarrow> contents (fst (shuffle_loop_ref rnd k n arr h)) a = contents h a"
  by (induction n arbitrary: k h) (simp_all add: Let_def)

lemma shuffle_loop_ref_value:
  "contents (fst (shuffle_loop_ref rnd k n arr h)) arr
     = fst (shuffle_loop rnd k n (contents h arr))"
  by (induction n arbitrary: k h) (simp_all add: Let_def)

text \<open>
  C8. \<open>shuffle\<close> called on an array object returns a new array whose contents are a
  permutation of the input's (same multiset, same length, also for the empty and the
  one-element array), and the input array holds afterwards what it held before. The
  contents returned are those the function on array values computes.
\<close>

theorem shuffle_permutation_no_mutation:
  assumes "array < allocated h"
  shows "case shuffle_ref rnd k array h of
           (arr, h', k') \<Rightarrow>
             mset (contents h' arr) = mset (contents h array) \<and>
             length (contents h' arr) = length (contents h array) \<and>
             contents h' array = contents h array \<and>
             arr \<noteq> array \<and>
             contents h' arr = fst (shuffle rnd k (contents h array))"
proof -
  obtain h1 where n: "new_array (contents h array) h = (allocated h, h1)"
    and h1: "contents h1 = (contents h)(allocated h := contents h array)"
    by (simp add: new_array_def)
  obtain h2 k' where
    l: "shuffle_loop_ref rnd k (length (contents h array) - 1) (allocated h) h1 = (h2, k')"
    by (cases "shuffle_loop_ref rnd k (length (contents h array) - 1) (allocated h) h1")
  have r: "shuffle_ref rnd k array h = (allocated h, h2, k')"
    using n l h1 by (simp add: shuffle_ref_def)
  have v: "contents h2 (allocated h) = fst (shuffle rnd k (contents h array))"
    using shuffle_loop_ref_value[of rnd k "length (contents h array) - 1" "allocated h" h1] l h1
    by (simp add: shuffle_def Let_def)
  have f: "contents h2 array = contents h array"
    using shuffle_loop_ref_frame[of array "allocated h" rnd k
        "length (contents h array) - 1" h1] l h1 assms
    by simp
  show ?thesis
    using r v f assms by (simp add: mset_shuffle length_shuffle)
qed

theorem shuffle_permutation_no_mutation_witness:
  "(0::nat) < allocated example_heap \<and>
   fst (shuffle_ref example_rnd 0 0 example_heap) = 1 \<and>
   contents (fst (snd (shuffle_ref example_rnd 0 0 example_heap))) 1 = [30, 20, 10] \<and>
   contents (fst (snd (shuffle_ref example_rnd 0 0 example_heap))) 0 = [10, 20, 30] \<and>
   mset (contents (fst (snd (shuffle_ref example_rnd 0 0 example_heap))) 1) = mset [10, 20, 30]"
proof -
  have a: "(0::nat) < allocated example_heap"
    by (simp add: example_heap_def)
  have c: "contents example_heap 0 = [10, 20, 30]"
    by (simp add: example_heap_def)
  have e: "shuffle_ref example_rnd 0 0 example_heap =
             (1, \<lparr>contents = (contents example_heap)(1 := [30, 20, 10]), allocated = 2\<rparr>, 2)"
    by (simp add: shuffle_ref_def new_array_def example_heap_def Let_def randomBelow_def
        example_rnd_def numeral_2_eq_2 fun_eq_iff)
  have t: "mset (contents (fst (snd (shuffle_ref example_rnd 0 0 example_heap)))
                  (fst (shuffle_ref example_rnd 0 0 example_heap)))
           = mset (contents example_heap 0)"
    using shuffle_permutation_no_mutation[OF a, of example_rnd 0]
    by (cases "shuffle_ref example_rnd 0 0 example_heap") fastforce
  have m: "mset (contents (fst (snd (shuffle_ref example_rnd 0 0 example_heap))) 1)
           = mset [10, 20, 30]"
    using t by (simp add: e c)
  show ?thesis
    using a m by (simp add: e c)
qed

section \<open>Answer checking\<close>
















text \<open>
  C9. \<open>checkAnswer\<close> on a multiple-choice question whose correct answers are listed
  as C, A: afterwards the question object, which \<open>allQuestions\<close> shares with the
  session, lists them as A, C.
\<close>

theorem checkAnswer_reorders_correctAnswers:
  "allQuestions unsorted_app = [0] \<and>
   correctAnswers (qstore unsorted_app 0) = [''C'', ''A''] \<and>
   map_sum id (\<lambda>s'. correctAnswers (qstore s' 0))
     (checkAnswer ''2026-01-01T09:00:00.000Z'' unsorted_app)
     = Inr [''A'', ''C'']"
  by code_simp

section \<open>Starting a quiz\<close>

text \<open>
  C3. When the pool left by the category filter is empty, \<open>startQuiz\<close> raises the
  alert for no available questions and returns the state as it was: no field of the
  session changes and no random number is drawn.
\<close>

theorem startQuiz_empty_pool:
  assumes "filterByCategory s = []"
  shows "startQuiz rnd k now s
           = Inr (Some ''No questions available with selected filters'', s, k)"
  using assms by (simp add: startQuiz_def)

theorem startQuiz_empty_pool_witness:
  "filterByCategory (example_app\<lparr>selectedCategories := {''Governance''}\<rparr>) = [] \<and>
   startQuiz example_rnd 0 9 (example_app\<lparr>selectedCategories := {''Governance''}\<rparr>)
     = Inr (Some ''No questions available with selected filters'',
            example_app\<lparr>selectedCategories := {''Governance''}\<rparr>, 0)"
proof -
  have e: "filterByCategory (example_app\<lparr>selectedCategories := {''Governance''}\<rparr>) = []"
    by (simp add: filterByCategory_def example_app_def new_QuizApp_def example_store_def
        example_multi_def example_single_def)
  show ?thesis
    using startQuiz_empty_pool[OF e, of example_rnd 0 9] e by simp
qed

section \<open>Exam selection\<close>

lemma targets_50:
  "nat (Math_round (real 50 * ((45 / 100 + 50 / 100) / 2))) = 24"
  "nat (Math_round (real 50 * ((35 / 100 + 40 / 100) / 2))) = 19"
  "nat (Math_round (real 50 * ((15 / 100 + 20 / 100) / 2))) = 9"
  by (simp_all add: Math_round_def)

lemma selectPerCategory_shape:
  obtains S1 S2 S3 k' where
    "mset S1 = mset (filter (\<lambda>q. category (st q) =
        ''Perform solution envisioning and requirement analysis'') pool)"
    "mset S2 = mset (filter (\<lambda>q. category (st q) = ''Architect a solution'') pool)"
    "mset S3 = mset (filter (\<lambda>q. category (st q) = ''Implement the solution'') pool)"
    "selectPerCategory st rnd k pool t categoryDistribution [] =
       (take (min (nat (Math_round (real t * ((45 / 100 + 50 / 100) / 2)))) (length S1)) S1 @
        take (min (nat (Math_round (real t * ((35 / 100 + 40 / 100) / 2)))) (length S2)) S2 @
        take (min (nat (Math_round (real t * ((15 / 100 + 20 / 100) / 2)))) (length S3)) S3, k')"
proof -
  let ?F1 = "filter (\<lambda>q. category (st q) =
        ''Perform solution envisioning and requirement analysis'') pool"
  let ?F2 = "filter (\<lambda>q. category (st q) = ''Architect a solution'') pool"
  let ?F3 = "filter (\<lambda>q. category (st q) = ''Implement the solution'') pool"
  obtain S1 k1 where s1: "shuffle rnd k ?F1 = (S1, k1)" by (cases "shuffle rnd k ?F1")
  obtain S2 k2 where s2: "shuffle rnd k1 ?F2 = (S2, k2)" by (cases "shuffle rnd k1 ?F2")
  obtain S3 k3 where s3: "shuffle rnd k2 ?F3 = (S3, k3)" by (cases "shuffle rnd k2 ?F3")
  have m: "mset S1 = mset ?F1" "mset S2 = mset ?F2" "mset S3 = mset ?F3"
    using mset_shuffle[of rnd k ?F1] mset_shuffle[of rnd k1 ?F2] mset_shuffle[of rnd k2 ?F3]
      s1 s2 s3
    by simp_all
  have "selectPerCategory st rnd k pool t categoryDistribution [] =
       (take (min (nat (Math_round (real t * ((45 / 100 + 50 / 100) / 2)))) (length S1)) S1 @
        take (min (nat (Math_round (real t * ((35 / 100 + 40 / 100) / 2)))) (length S2)) S2 @
        take (min (nat (Math_round (real t * ((15 / 100 + 20 / 100) / 2)))) (length S3)) S3, k3)"
    by (simp add: categoryDistribution_def Let_def s1 s2 s3)
  then show ?thesis using m that by blast
qed

lemma selectTestQuestions_shape:
  assumes "selectPerCategory st rnd k pool t categoryDistribution [] = (sel, k1)"
    and "\<not> list_ex (\<lambda>q. groupingThrows B (category (st q))) pool"
  obtains U F k3 where
    "mset U = mset (filter (\<lambda>q. q \<notin> set sel) pool)"
    "mset F = mset (if length sel < t then sel @ take (t - length sel) U else sel)"
    "selectTestQuestions B st rnd k pool t = Inr (take t F, k3)"
proof -
  let ?unused = "filter (\<lambda>q. q \<notin> set sel) pool"
  obtain U k2 where u: "shuffle rnd k1 ?unused = (U, k2)" by (cases "shuffle rnd k1 ?unused")
  let ?sel' = "if length sel < t then sel @ take (t - length sel) U else sel"
  let ?k' = "if length sel < t then k2 else k1"
  obtain F k3 where f: "shuffle rnd ?k' ?sel' = (F, k3)" by (cases "shuffle rnd ?k' ?sel'")
  have mu: "mset U = mset ?unused"
    using mset_shuffle[of rnd k1 ?unused] u by simp
  have mf: "mset F = mset ?sel'"
    using mset_shuffle[of rnd ?k' ?sel'] f by simp
  have "selectTestQuestions B st rnd k pool t = Inr (take t F, k3)"
  proof (cases "length sel < t")
    case True
    then show ?thesis using assms u f by (simp add: selectTestQuestions_def Let_def)
  next
    case False
    then show ?thesis using assms f by (simp add: selectTestQuestions_def Let_def)
  qed
  then show ?thesis using mu mf that by blast
qed

lemma length_filter_unused:
  assumes "distinct pool" "distinct sel" "set sel \<subseteq> set pool"
  shows "length (filter (\<lambda>q. q \<notin> set sel) pool) = length pool - length sel"
proof -
  have "length (filter (\<lambda>q. q \<notin> set sel) pool) = card (set pool - set sel)"
    using assms(1) by (simp add: distinct_length_filter Diff_eq Int_commute Compl_eq)
  also have "\<dots> = card (set pool) - card (set sel)"
    using assms(3) by (simp add: card_Diff_subset)
  also have "\<dots> = length pool - length sel"
    using assms(1,2) by (simp add: distinct_card)
  finally show ?thesis .
qed

lemma selection_core:
  assumes "distinct pool" "distinct sel" "set sel \<subseteq> set pool"
    and "mset U = mset (filter (\<lambda>q. q \<notin> set sel) pool)"
    and "mset F = mset (if length sel < t then sel @ take (t - length sel) U else sel)"
  shows "length (take t F) = min t (length pool)"
    and "distinct (take t F)"
    and "set (take t F) \<subseteq> set pool"
proof -
  have lu: "length U = length pool - length sel"
    using length_filter_unused[OF assms(1-3)] assms(4) by (metis size_mset)
  have su: "set U = set pool - set sel"
    using assms(4) by (metis mset_eq_setD set_filter set_diff_eq)
  have du: "distinct U"
    using assms(1,4) by (metis distinct_filter mset_eq_imp_distinct_iff)
  have le: "length sel \<le> length pool"
    using assms(1-3) by (metis card_mono distinct_card List.finite_set)
  have lf: "length F = (if length sel < t
                        then length sel + min (t - length sel) (length pool - length sel)
                        else length sel)"
    using assms(5) lu by (metis (full_types) length_append length_take size_mset min.commute)
  show "length (take t F) = min t (length pool)"
    using lf le by (simp split: if_splits)
  have dsel': "distinct (if length sel < t then sel @ take (t - length sel) U else sel)"
    using assms(2) du su by (auto dest: in_set_takeD)
  then have "distinct F"
    using assms(5) by (metis mset_eq_imp_distinct_iff)
  then show "distinct (take t F)" by simp
  have "set (if length sel < t then sel @ take (t - length sel) U else sel) \<subseteq> set pool"
    using assms(3) su by (auto dest: in_set_takeD)
  then have "set F \<subseteq> set pool"
    using assms(5) by (metis mset_eq_setD)
  then show "set (take t F) \<subseteq> set pool"
    by (meson set_take_subset subset_trans)
qed

lemma per_category_selection:
  assumes "distinct pool"
    and "mset S1 = mset (filter (\<lambda>q. category (st q) = c1) pool)"
    and "mset S2 = mset (filter (\<lambda>q. category (st q) = c2) pool)"
    and "mset S3 = mset (filter (\<lambda>q. category (st q) = c3) pool)"
    and "c1 \<noteq> c2" "c1 \<noteq> c3" "c2 \<noteq> c3"
  shows "distinct (take n1 S1 @ take n2 S2 @ take n3 S3)"
    and "set (take n1 S1 @ take n2 S2 @ take n3 S3) \<subseteq> set pool"
proof -
  have s: "set S1 = {q \<in> set pool. category (st q) = c1}"
    "set S2 = {q \<in> set pool. category (st q) = c2}"
    "set S3 = {q \<in> set pool. category (st q) = c3}"
    using assms(2-4) by (metis mset_eq_setD set_filter)+
  have d: "distinct S1" "distinct S2" "distinct S3"
    using assms(1-4) by (metis distinct_filter mset_eq_imp_distinct_iff)+
  show "distinct (take n1 S1 @ take n2 S2 @ take n3 S3)"
    using d s assms(5-7) by (auto dest!: in_set_takeD)
  show "set (take n1 S1 @ take n2 S2 @ take n3 S3) \<subseteq> set pool"
    using s by (auto dest!: in_set_takeD)
qed

lemma filter_all: "(\<And>x. x \<in> set xs \<Longrightarrow> P x) \<Longrightarrow> filter P xs = xs"
  by (induction xs) auto

lemma filter_none: "(\<And>x. x \<in> set xs \<Longrightarrow> \<not> P x) \<Longrightarrow> filter P xs = []"
  by (induction xs) auto

lemma categoryCount_per_category:
  assumes "mset S1 = mset (filter (\<lambda>q. category (st q) = c1) pool)"
    and "mset S2 = mset (filter (\<lambda>q. category (st q) = c2) pool)"
    and "mset S3 = mset (filter (\<lambda>q. category (st q) = c3) pool)"
    and "c1 \<noteq> c2" "c1 \<noteq> c3" "c2 \<noteq> c3"
  shows "categoryCount st c1 (take n1 S1 @ take n2 S2 @ take n3 S3) = min n1 (categoryCount st c1 pool)"
    and "categoryCount st c2 (take n1 S1 @ take n2 S2 @ take n3 S3) = min n2 (categoryCount st c2 pool)"
    and "categoryCount st c3 (take n1 S1 @ take n2 S2 @ take n3 S3) = min n3 (categoryCount st c3 pool)"
proof -
  have s: "\<And>q. q \<in> set S1 \<Longrightarrow> category (st q) = c1"
    "\<And>q. q \<in> set S2 \<Longrightarrow> category (st q) = c2"
    "\<And>q. q \<in> set S3 \<Longrightarrow> category (st q) = c3"
    using assms(1-3) by (metis (mono_tags, lifting) mset_eq_setD set_filter mem_Collect_eq)+
  have l: "length S1 = categoryCount st c1 pool" "length S2 = categoryCount st c2 pool"
    "length S3 = categoryCount st c3 pool"
    unfolding categoryCount_def using assms(1-3) by (metis size_mset)+
  have t: "\<And>q n. q \<in> set (take n S1) \<Longrightarrow> category (st q) = c1"
    "\<And>q n. q \<in> set (take n S2) \<Longrightarrow> category (st q) = c2"
    "\<And>q n. q \<in> set (take n S3) \<Longrightarrow> category (st q) = c3"
    using s by (auto dest!: in_set_takeD)
  have a1: "filter (\<lambda>q. category (st q) = c1) (take n1 S1) = take n1 S1"
    using t(1) by (intro filter_all) auto
  have a2: "filter (\<lambda>q. category (st q) = c1) (take n2 S2) = []"
    using t(2) assms(4) by (intro filter_none) auto
  have a3: "filter (\<lambda>q. category (st q) = c1) (take n3 S3) = []"
    using t(3) assms(5) by (intro filter_none) auto
  show "categoryCount st c1 (take n1 S1 @ take n2 S2 @ take n3 S3) = min n1 (categoryCount st c1 pool)"
    using l(1) by (simp add: categoryCount_def a1 a2 a3 min.commute)
  have b1: "filter (\<lambda>q. category (st q) = c2) (take n1 S1) = []"
    using t(1) assms(4) by (intro filter_none) auto
  have b2: "filter (\<lambda>q. category (st q) = c2) (take n2 S2) = take n2 S2"
    using t(2) by (intro filter_all) auto
  have b3: "filter (\<lambda>q. category (st q) = c2) (take n3 S3) = []"
    using t(3) assms(6) by (intro filter_none) auto
  show "categoryCount st c2 (take n1 S1 @ take n2 S2 @ take n3 S3) = min n2 (categoryCount st c2 pool)"
    using l(2) by (simp add: categoryCount_def b1 b2 b3 min.commute)
  have c1: "filter (\<lambda>q. category (st q) = c3) (take n1 S1) = []"
    using t(1) assms(5) by (intro filter_none) auto
  have c2: "filter (\<lambda>q. category (st q) = c3) (take n2 S2) = []"
    using t(2) assms(6) by (intro filter_none) auto
  have c3: "filter (\<lambda>q. category (st q) = c3) (take n3 S3) = take n3 S3"
    using t(3) by (intro filter_all) auto
  show "categoryCount st c3 (take n1 S1 @ take n2 S2 @ take n3 S3) = min n3 (categoryCount st c3 pool)"
    using l(3) by (simp add: categoryCount_def c1 c2 c3 min.commute)
qed

lemma categoryCount_mset:
  "mset xs = mset ys \<Longrightarrow> categoryCount st c xs = categoryCount st c ys"
  unfolding categoryCount_def by (metis mset_filter size_mset)

lemma categoryCount_take:
  "categoryCount st c (take n xs) \<le> categoryCount st c xs"
  "categoryCount st c xs \<le> categoryCount st c (take n xs) + (length xs - n)"
proof -
  have "categoryCount st c xs =
          categoryCount st c (take n xs) + categoryCount st c (drop n xs)"
    unfolding categoryCount_def by (metis append_take_drop_id filter_append length_append)
  moreover have "categoryCount st c (drop n xs) \<le> length xs - n"
    unfolding categoryCount_def by (metis length_filter_le length_drop)
  ultimately show "categoryCount st c (take n xs) \<le> categoryCount st c xs"
    and "categoryCount st c xs \<le> categoryCount st c (take n xs) + (length xs - n)"
    by simp_all
qed

text \<open>
  C2, as the code has it. For a pool of pairwise different question objects none of
  whose categories makes the grouping loop throw (no category outside the table names
  a built-in member of \<open>Object.prototype\<close> or a non-empty string added to it),
  \<open>selectTestQuestions\<close> with target 50 returns \<open>min 50 (length pool)\<close> different
  questions of the pool. The targets per category are 24, 19 and 9 (52 together, of
  which 50 are kept): when the pool holds at least that many questions of each
  official category, the result has exactly 50 questions, between 22 and 24 of the
  first category, between 17 and 19 of the second and between 7 and 9 of the third.
\<close>

theorem selectTestQuestions_50:
  assumes "distinct pool"
    and "\<not> list_ex (\<lambda>q. groupingThrows B (category (st q))) pool"
  shows "\<exists>qs k'. selectTestQuestions B st rnd k pool 50 = Inr (qs, k') \<and>
         length qs = min 50 (length pool) \<and> distinct qs \<and> set qs \<subseteq> set pool \<and>
         (24 \<le> categoryCount st ''Perform solution envisioning and requirement analysis'' pool \<and>
          19 \<le> categoryCount st ''Architect a solution'' pool \<and>
          9 \<le> categoryCount st ''Implement the solution'' pool \<longrightarrow>
            length qs = 50 \<and>
            categoryCount st ''Perform solution envisioning and requirement analysis'' qs
              \<in> {22..24} \<and>
            categoryCount st ''Architect a solution'' qs \<in> {17..19} \<and>
            categoryCount st ''Implement the solution'' qs \<in> {7..9})"
proof -
  let ?c1 = "''Perform solution envisioning and requirement analysis''"
  let ?c2 = "''Architect a solution''"
  let ?c3 = "''Implement the solution''"
  obtain S1 S2 S3 k1 where
    m1: "mset S1 = mset (filter (\<lambda>q. category (st q) = ?c1) pool)" and
    m2: "mset S2 = mset (filter (\<lambda>q. category (st q) = ?c2) pool)" and
    m3: "mset S3 = mset (filter (\<lambda>q. category (st q) = ?c3) pool)" and
    p: "selectPerCategory st rnd k pool 50 categoryDistribution [] =
          (take (min 24 (length S1)) S1 @ take (min 19 (length S2)) S2 @
           take (min 9 (length S3)) S3, k1)"
    using selectPerCategory_shape[of st pool rnd k 50] unfolding targets_50 by metis
  let ?sel = "take (min 24 (length S1)) S1 @ take (min 19 (length S2)) S2 @
              take (min 9 (length S3)) S3"
  obtain U F k3 where
    u: "mset U = mset (filter (\<lambda>q. q \<notin> set ?sel) pool)" and
    f: "mset F = mset (if length ?sel < 50 then ?sel @ take (50 - length ?sel) U else ?sel)" and
    r: "selectTestQuestions B st rnd k pool 50 = Inr (take 50 F, k3)"
    using selectTestQuestions_shape[OF p assms(2)] by metis
  have ne: "?c1 \<noteq> ?c2" "?c1 \<noteq> ?c3" "?c2 \<noteq> ?c3"
    by simp_all
  have d: "distinct ?sel" and s: "set ?sel \<subseteq> set pool"
    using per_category_selection[OF assms(1) m1 m2 m3 ne] by simp_all
  note core = selection_core[OF assms(1) d s u f]
  have general: "length (take 50 F) = min 50 (length pool)" "distinct (take 50 F)"
    "set (take 50 F) \<subseteq> set pool"
    using core by simp_all
  have supplied: "length (take 50 F) = 50 \<and>
      categoryCount st ?c1 (take 50 F) \<in> {22..24} \<and>
      categoryCount st ?c2 (take 50 F) \<in> {17..19} \<and>
      categoryCount st ?c3 (take 50 F) \<in> {7..9}"
    if enough: "24 \<le> categoryCount st ?c1 pool" "19 \<le> categoryCount st ?c2 pool"
      "9 \<le> categoryCount st ?c3 pool"
  proof -
    have l: "length S1 = categoryCount st ?c1 pool" "length S2 = categoryCount st ?c2 pool"
      "length S3 = categoryCount st ?c3 pool"
      unfolding categoryCount_def using m1 m2 m3 by (metis size_mset)+
    have ls: "length ?sel = 52"
      using l enough by simp
    then have mf: "mset F = mset ?sel"
      using f by simp
    then have lf: "length F = 52"
      using ls by (metis size_mset)
    have c: "categoryCount st ?c1 F = 24" "categoryCount st ?c2 F = 19"
      "categoryCount st ?c3 F = 9"
      using categoryCount_per_category[OF m1 m2 m3 ne, of "min 24 (length S1)"
          "min 19 (length S2)" "min 9 (length S3)"]
        categoryCount_mset[OF mf, of st] l enough
      by simp_all
    have "length (take 50 F) = 50"
      using lf by simp
    moreover have "categoryCount st ?c1 (take 50 F) \<in> {22..24}"
      using categoryCount_take[where st = st and c = "?c1" and n = 50 and xs = F] c(1) lf by simp
    moreover have "categoryCount st ?c2 (take 50 F) \<in> {17..19}"
      using categoryCount_take[where st = st and c = "?c2" and n = 50 and xs = F] c(2) lf by simp
    moreover have "categoryCount st ?c3 (take 50 F) \<in> {7..9}"
      using categoryCount_take[where st = st and c = "?c3" and n = 50 and xs = F] c(3) lf by simp
    ultimately show ?thesis by simp
  qed
  show ?thesis
    unfolding r using general supplied by blast
qed

theorem selectTestQuestions_50_witness:
  "distinct exam_bank \<and>
   \<not> list_ex (\<lambda>q. groupingThrows (builtinObjects example_app) (category (exam_store q)))
       exam_bank \<and>
   24 \<le> categoryCount exam_store ''Perform solution envisioning and requirement analysis''
          exam_bank \<and>
   19 \<le> categoryCount exam_store ''Architect a solution'' exam_bank \<and>
   9 \<le> categoryCount exam_store ''Implement the solution'' exam_bank \<and>
   (\<exists>qs k'. selectTestQuestions (builtinObjects example_app) exam_store example_rnd 0
               exam_bank 50 = Inr (qs, k') \<and>
      length qs = 50 \<and>
      categoryCount exam_store ''Perform solution envisioning and requirement analysis'' qs
        \<in> {22..24} \<and>
      categoryCount exam_store ''Architect a solution'' qs \<in> {17..19} \<and>
      categoryCount exam_store ''Implement the solution'' qs \<in> {7..9})"
proof -
  have d: "distinct exam_bank"
    by (simp add: exam_bank_def)
  have g: "\<not> list_ex (\<lambda>q. groupingThrows (builtinObjects example_app)
                  (category (exam_store q))) exam_bank"
    by (simp add: list_ex_iff groupingThrows_def categoryDistribution_def exam_store_def)
  have c1: "24 \<le> categoryCount exam_store
              ''Perform solution envisioning and requirement analysis'' exam_bank"
    by code_simp
  have c2: "19 \<le> categoryCount exam_store ''Architect a solution'' exam_bank"
    by code_simp
  have c3: "9 \<le> categoryCount exam_store ''Implement the solution'' exam_bank"
    by code_simp
  show ?thesis
    using selectTestQuestions_50[OF d g, of example_rnd 0] d g c1 c2 c3 by blast
qed

theorem selectTestQuestions_small_pool_counterexample:
  "category (exam_store 0) = ''Perform solution envisioning and requirement analysis'' \<and>
   category (exam_store 30) = ''Architect a solution'' \<and>
   category (exam_store 50) = ''Implement the solution'' \<and>
   map_sum id fst
     (selectTestQuestions (builtinObjects example_app) exam_store example_rnd 0 [0, 30, 50] 50)
     = Inr [50, 30, 0] \<and>
   map_sum id (\<lambda>r. length (fst r))
     (selectTestQuestions (builtinObjects example_app) exam_store example_rnd 0 [0, 30, 50] 50)
     \<noteq> Inr 50"
  by code_simp

end
